theory Spec2Isabelle
  imports Complex_Main
begin

section \<open>JavaScript values used by the components\<close>

text \<open>
  The components compute with the TypeScript type \<open>number\<close>. The model keeps the
  not-a-number value, because \<open>parseFloat\<close> produces it and every comparison with it
  is false, and takes the finite values as exact rationals. Binary rounding and signed
  zero are outside the model, and so are the two infinite values: the type has none,
  and \<open>Fin\<close> reads "a finite number".
\<close>

datatype number = NaN | Fin rat

fun is_finite :: "number \<Rightarrow> bool" where
  "is_finite (Fin a) = True"
| "is_finite NaN = False"

fun num_add :: "number \<Rightarrow> number \<Rightarrow> number" where
  "num_add (Fin a) (Fin b) = Fin (a + b)"
| "num_add _ _ = NaN"

fun num_sub :: "number \<Rightarrow> number \<Rightarrow> number" where
  "num_sub (Fin a) (Fin b) = Fin (a - b)"
| "num_sub _ _ = NaN"

fun num_mul :: "number \<Rightarrow> number \<Rightarrow> number" where
  "num_mul (Fin a) (Fin b) = Fin (a * b)"
| "num_mul _ _ = NaN"

text \<open>Division is only ever applied to the constant divisors 100, 12 and 4.\<close>

fun num_div :: "number \<Rightarrow> number \<Rightarrow> number" where
  "num_div (Fin a) (Fin b) = (if b = 0 then NaN else Fin (a / b))"
| "num_div _ _ = NaN"

fun num_lt :: "number \<Rightarrow> number \<Rightarrow> bool" where
  "num_lt (Fin a) (Fin b) = (a < b)"
| "num_lt _ _ = False"

fun num_le :: "number \<Rightarrow> number \<Rightarrow> bool" where
  "num_le (Fin a) (Fin b) = (a \<le> b)"
| "num_le _ _ = False"

fun num_gt :: "number \<Rightarrow> number \<Rightarrow> bool" where
  "num_gt (Fin a) (Fin b) = (a > b)"
| "num_gt _ _ = False"

text \<open>Strict equality \<open>===\<close> on numbers: \<open>NaN\<close> is not equal to itself.\<close>

fun num_eq :: "number \<Rightarrow> number \<Rightarrow> bool" where
  "num_eq (Fin a) (Fin b) = (a = b)"
| "num_eq _ _ = False"

subsection \<open>\<open>parseFloat\<close>\<close>

text \<open>
  A character stands for a code unit below 256. The white space that \<open>parseFloat\<close>
  skips is, among those, tab, line feed, vertical tab, form feed, carriage return,
  space and no-break space.
\<close>

definition is_space :: "char \<Rightarrow> bool" where
  "is_space c =
     (c \<in> set [CHR '' '', CHR 0x09, CHR 0x0A, CHR 0x0B, CHR 0x0C, CHR 0x0D, CHR 0xA0])"

definition is_digit :: "char \<Rightarrow> bool" where
  "is_digit c = (c \<in> set ''0123456789'')"

text \<open>The value of a digit is its position among the ten digits.\<close>

definition digit_val :: "char \<Rightarrow> nat" where
  "digit_val c = length (takeWhile (\<lambda>d. d \<noteq> c) ''0123456789'')"

definition digits_val :: "string \<Rightarrow> nat" where
  "digits_val ds = foldl (\<lambda>n c. 10 * n + digit_val c) 0 ds"

text \<open>An optional sign: the flag says whether it was a minus.\<close>

fun take_sign :: "string \<Rightarrow> bool \<times> string" where
  "take_sign [] = (False, [])"
| "take_sign (c # cs) =
     (if c = CHR ''-'' then (True, cs)
      else if c = CHR ''+'' then (False, cs)
      else (False, c # cs))"

text \<open>
  The exponent part \<open>e\<close>, optional sign, digits; it only counts when at least one digit
  follows. The result is the sign flag and the magnitude.
\<close>

fun exponent_part :: "string \<Rightarrow> bool \<times> nat" where
  "exponent_part [] = (False, 0)"
| "exponent_part (c # cs) =
     (if c = CHR ''e'' \<or> c = CHR ''E''
      then (let (neg, r) = take_sign cs; ds = takeWhile is_digit r
            in if ds = [] then (False, 0) else (neg, digits_val ds))
      else (False, 0))"

text \<open>
  \<open>parseFloat\<close> skips leading white space and reads the longest prefix that is a
  decimal literal; when there is none the result is \<open>NaN\<close>. The value is the exact
  decimal, not the nearest double. For the literal \<open>Infinity\<close>, and for a literal beyond
  the double range, JavaScript returns an infinite value, which the model does not
  have; the result of the model there is not of the form \<open>Fin r\<close>. The statements below
  that speak of a parsed value either require it to be a finite number (a result
  \<open>Fin r\<close>) or hold of every value that is not one.
\<close>

definition parseFloat :: "string \<Rightarrow> number" where
  "parseFloat s =
     (let (neg, r0) = take_sign (dropWhile is_space s);
          ip = takeWhile is_digit r0;
          r1 = dropWhile is_digit r0;
          fp = (case r1 of [] \<Rightarrow> [] | c # t \<Rightarrow> if c = CHR ''.'' then takeWhile is_digit t else []);
          r2 = (case r1 of [] \<Rightarrow> [] | c # t \<Rightarrow> if c = CHR ''.'' then dropWhile is_digit t else r1)
      in if ip = [] \<and> fp = [] then NaN
         else
           (let m = of_nat (digits_val ip) + of_nat (digits_val fp) / 10 ^ length fp;
                (eneg, e) = exponent_part r2;
                v = (if eneg then m / 10 ^ e else m * 10 ^ e)
            in Fin (if neg then - v else v)))"

subsection \<open>Numbers in template literals\<close>

text \<open>
  \<open>Date.now()\<close> is a count of milliseconds, a natural number; a template literal
  renders it in decimal.
\<close>

definition digit_char :: "nat \<Rightarrow> char" where
  "digit_char d = ''0123456789'' ! d"

function show_nat :: "nat \<Rightarrow> string" where
  "show_nat n = (if n < 10 then [digit_char n] else show_nat (n div 10) @ [digit_char (n mod 10)])"
  by pat_completeness auto
termination
  by (relation "measure id") auto

declare show_nat.simps [simp del]

section \<open>Data model\<close>

text \<open>
  The \<open>Account\<close> interface of the two components (the interest calculator declares
  the optional fields, the transfer form only the required ones). The field \<open>id\<close> is
  written \<open>id_acc\<close>.
\<close>

record account =
  id_acc :: string
  userId :: string
  accountNumber :: string
  accountType :: string
  accountName :: "string option"
  balance :: number
  currency :: string
  status :: string
  interestRate :: "string option"
  purpose :: "string option"
  createdAt :: string

text \<open>
  The object handed to \<open>blink.db.transactions.create\<close>. The fields \<open>id\<close> and
  \<open>status\<close> are written \<open>id_txn\<close> and \<open>status_txn\<close>.
\<close>

record transaction_rec =
  id_txn :: string
  fromAccountId :: "string option"
  toAccountId :: "string option"
  amount :: number
  transactionType :: string
  description :: string
  referenceNumber :: string
  status_txn :: string

section \<open>The store and the clock\<close>

text \<open>
  The components write through the database client \<open>blink.db\<close>, an external service.
  It is modelled as two in-memory tables whose operations always succeed, so the
  \<open>catch\<close> branches of the handlers, which only run when the client rejects a call,
  are never taken. \<open>accounts.update(id, {balance})\<close> sets the balance of the rows with
  that id and leaves a table without such a row as it is; \<open>transactions.create\<close>
  appends a row.

  \<open>Date.now()\<close> reads a clock: the \<open>k\<close>-th reading is \<open>clock k\<close>, and the world counts
  the readings made so far.
\<close>

type_synonym clock = "nat \<Rightarrow> nat"

record world =
  db_accounts :: "account list"
  db_transactions :: "transaction_rec list"
  now_calls :: nat

definition accounts_update :: "string \<Rightarrow> number \<Rightarrow> world \<Rightarrow> world" where
  "accounts_update i v w =
     w\<lparr>db_accounts := map (\<lambda>a. if id_acc a = i then a\<lparr>balance := v\<rparr> else a) (db_accounts w)\<rparr>"

definition transactions_create :: "transaction_rec \<Rightarrow> world \<Rightarrow> world" where
  "transactions_create t w = w\<lparr>db_transactions := db_transactions w @ [t]\<rparr>"

definition Date_now :: "clock \<Rightarrow> world \<Rightarrow> nat \<times> world" where
  "Date_now clk w = (clk (now_calls w), w\<lparr>now_calls := Suc (now_calls w)\<rparr>)"

text \<open>What the handlers show to the user.\<close>

datatype toast =
  Toast_Error string
| Transfer_Success number
| No_Eligible_Accounts
| Interest_Applied number

section \<open>\<open>TransferForm.handleTransfer\<close>\<close>

text \<open>
  The state of the form. The state variables \<open>amount\<close> and \<open>description\<close> are written
  \<open>amount_field\<close> and \<open>description_field\<close>.
\<close>

record form =
  fromAccount :: string
  toAccount :: string
  amount_field :: string
  description_field :: string

text \<open>The reference number of a transfer: \<open>`TXN${Date.now()}`\<close>.\<close>

definition transfer_reference :: "nat \<Rightarrow> string" where
  "transfer_reference t = ''TXN'' @ show_nat t"

text \<open>
  The handler, with the component's \<open>accounts\<close> property, its form state and the world.
  It returns the toast, the form state (cleared on success) and the world. An empty
  string is the only falsy string. The loading flag and the reload callback
  \<open>onTransferComplete\<close> belong to the presentation and are left out.
\<close>

definition handleTransfer :: "clock \<Rightarrow> account list \<Rightarrow> form \<Rightarrow> world \<Rightarrow> toast \<times> form \<times> world" where
  "handleTransfer clk accounts f w =
     (if fromAccount f = [] \<or> toAccount f = [] \<or> amount_field f = []
      then (Toast_Error ''Please fill in all required fields'', f, w)
      else if fromAccount f = toAccount f
      then (Toast_Error ''Cannot transfer to the same account'', f, w)
      else
        (let transferAmount = parseFloat (amount_field f) in
         if num_le transferAmount (Fin 0)
         then (Toast_Error ''Transfer amount must be greater than 0'', f, w)
         else
           (case find (\<lambda>acc. id_acc acc = fromAccount f) accounts of
              None \<Rightarrow> (Toast_Error ''Insufficient funds in source account'', f, w)
            | Some sourceAccount \<Rightarrow>
                if num_lt (balance sourceAccount) transferAmount
                then (Toast_Error ''Insufficient funds in source account'', f, w)
                else
                  (let (t1, w1) = Date_now clk w;
                       reference = transfer_reference t1;
                       (t2, w2) = Date_now clk w1;
                       w3 = transactions_create
                              \<lparr>id_txn = ''txn_'' @ show_nat t2,
                               fromAccountId = Some (fromAccount f),
                               toAccountId = Some (toAccount f),
                               amount = transferAmount,
                               transactionType = ''transfer'',
                               description = (if description_field f = [] then ''Fund transfer''
                                              else description_field f),
                               referenceNumber = reference,
                               status_txn = ''completed''\<rparr> w2;
                       w4 = accounts_update (fromAccount f)
                              (num_sub (balance sourceAccount) transferAmount) w3;
                       w5 = (case find (\<lambda>acc. id_acc acc = toAccount f) accounts of
                               None \<Rightarrow> w4
                             | Some targetAccount \<Rightarrow>
                                 accounts_update (toAccount f)
                                   (num_add (balance targetAccount) transferAmount) w4)
                   in (Transfer_Success transferAmount,
                       \<lparr>fromAccount = [], toAccount = [], amount_field = [], description_field = []\<rparr>,
                       w5)))))"

section \<open>\<open>InterestCalculator\<close>\<close>

definition interestEligibleAccounts :: "account list \<Rightarrow> account list" where
  "interestEligibleAccounts accounts =
     filter (\<lambda>account. accountType account = ''savings'' \<or>
                        accountType account = ''investment'' \<or>
                        accountType account = ''business'') accounts"

datatype period = Monthly | Quarterly | Yearly

text \<open>\<open>replace('%', '')\<close> with a string pattern removes the first occurrence only.\<close>

fun replace_percent :: "string \<Rightarrow> string" where
  "replace_percent [] = []"
| "replace_percent (c # cs) = (if c = CHR ''%'' then cs else c # replace_percent cs)"

text \<open>
  \<open>account.interestRate?.replace('%', '') || '0'\<close>: an absent rate and a rate that is
  empty once the percent sign is removed both give \<open>'0'\<close>.
\<close>

definition rate_text :: "account \<Rightarrow> string" where
  "rate_text account =
     (case interestRate account of
        None \<Rightarrow> ''0''
      | Some s \<Rightarrow> if replace_percent s = [] then ''0'' else replace_percent s)"

definition calculateInterest :: "account \<Rightarrow> period \<Rightarrow> number" where
  "calculateInterest account p =
     (let rate = num_div (parseFloat (rate_text account)) (Fin 100);
          bal = balance account;
          periodMultiplier = (case p of
                                Monthly \<Rightarrow> num_div (Fin 1) (Fin 12)
                              | Quarterly \<Rightarrow> num_div (Fin 1) (Fin 4)
                              | Yearly \<Rightarrow> Fin 1)
      in num_mul (num_mul bal rate) periodMultiplier)"

text \<open>The reference number of an interest payment: \<open>`INT${Date.now()}`\<close>.\<close>

definition interest_reference :: "nat \<Rightarrow> string" where
  "interest_reference t = ''INT'' @ show_nat t"

text \<open>An absent rate renders as \<open>undefined\<close> in the description.\<close>

definition interest_description :: "account \<Rightarrow> string" where
  "interest_description account =
     ''Monthly interest payment - '' @
     (case interestRate account of None \<Rightarrow> ''undefined'' | Some s \<Rightarrow> s) @ '' APY''"

text \<open>
  The object handed to \<open>transactions.create\<close> for an interest payment; \<open>t1\<close> is the
  clock reading used in \<open>id\<close> and \<open>t2\<close> the one used in \<open>referenceNumber\<close>.
\<close>

definition interest_transaction :: "account \<Rightarrow> number \<Rightarrow> nat \<Rightarrow> nat \<Rightarrow> transaction_rec" where
  "interest_transaction account interestAmount t1 t2 =
     \<lparr>id_txn = ''int_'' @ show_nat t1 @ ''_'' @ id_acc account,
      fromAccountId = None,
      toAccountId = Some (id_acc account),
      amount = interestAmount,
      transactionType = ''interest'',
      description = interest_description account,
      referenceNumber = interest_reference t2,
      status_txn = ''completed''\<rparr>"

text \<open>
  The body of the loop over the eligible accounts, carrying \<open>totalInterestApplied\<close> and
  the world. The object literal reads the clock for \<open>id\<close> first and for
  \<open>referenceNumber\<close> second.
\<close>

fun applyInterestLoop :: "clock \<Rightarrow> account list \<Rightarrow> number \<times> world \<Rightarrow> number \<times> world" where
  "applyInterestLoop clk [] (totalInterestApplied, w) = (totalInterestApplied, w)"
| "applyInterestLoop clk (account # rest) (totalInterestApplied, w) =
     (let interestAmount = calculateInterest account Monthly in
      if num_gt interestAmount (Fin 0)
      then
        (let w1 = accounts_update (id_acc account)
                    (num_add (balance account) interestAmount) w;
             (t1, w2) = Date_now clk w1;
             (t2, w3) = Date_now clk w2;
             w4 = transactions_create (interest_transaction account interestAmount t1 t2) w3
         in applyInterestLoop clk rest (num_add totalInterestApplied interestAmount, w4))
      else applyInterestLoop clk rest (totalInterestApplied, w))"

text \<open>
  The handler, with the component's \<open>accounts\<close> property and the world. The calculating
  flag and the reload callback \<open>onInterestApplied\<close> belong to the presentation and are
  left out.
\<close>

definition handleApplyInterest :: "clock \<Rightarrow> account list \<Rightarrow> world \<Rightarrow> toast \<times> world" where
  "handleApplyInterest clk accounts w =
     (if interestEligibleAccounts accounts = [] then (No_Eligible_Accounts, w)
      else (let (totalInterestApplied, w') = applyInterestLoop clk (interestEligibleAccounts accounts) (Fin 0, w)
            in (Interest_Applied totalInterestApplied, w')))"

section \<open>Concrete accounts and worlds\<close>

text \<open>
  The accounts of the scenarios: \<open>X\<close> and \<open>Y\<close> of the transfer scenarios and a savings
  account at 2.40 percent. All are active accounts of one user.
\<close>

definition an_account :: "string \<Rightarrow> string \<Rightarrow> number \<Rightarrow> string option \<Rightarrow> account" where
  "an_account i ty b r =
     \<lparr>id_acc = i, userId = ''user_1'', accountNumber = ''1001'' @ i, accountType = ty,
      accountName = None, balance = b, currency = ''USD'', status = ''active'',
      interestRate = r, purpose = None, createdAt = ''2024-01-01T00:00:00.000Z''\<rparr>"

definition acct_X :: account where
  "acct_X = an_account ''acc_1'' ''checking'' (Fin 100) (Some ''0.01%'')"

definition acct_Y :: account where
  "acct_Y = an_account ''acc_2'' ''checking'' (Fin 50) (Some ''0.01%'')"

definition acct_S :: account where
  "acct_S = an_account ''acc_3'' ''savings'' (Fin 1000) (Some ''2.40%'')"

definition world_of :: "account list \<Rightarrow> world" where
  "world_of rows = \<lparr>db_accounts = rows, db_transactions = [], now_calls = 0\<rparr>"

definition transfer_form :: "string \<Rightarrow> string \<Rightarrow> string \<Rightarrow> form" where
  "transfer_form src dst amt =
     \<lparr>fromAccount = src, toAccount = dst, amount_field = amt, description_field = []\<rparr>"

text \<open>A clock that advances by one millisecond per reading, and one that stands still.\<close>

definition ticking :: clock where
  "ticking k = 1700000000000 + k"

definition frozen :: clock where
  "frozen k = 1700000000000"

text \<open>The balances stored under an id.\<close>

definition balances_of :: "world \<Rightarrow> string \<Rightarrow> number list" where
  "balances_of w i = map balance (filter (\<lambda>a. id_acc a = i) (db_accounts w))"

text \<open>The transactions an invocation of the interest handler adds to the store.\<close>

definition posted :: "clock \<Rightarrow> account list \<Rightarrow> world \<Rightarrow> transaction_rec list" where
  "posted clk accounts w =
     drop (length (db_transactions w)) (db_transactions (snd (handleApplyInterest clk accounts w)))"

text \<open>The eligible accounts whose monthly interest passes the test \<open>interestAmount > 0\<close>.\<close>

definition earning :: "account list \<Rightarrow> account list" where
  "earning accounts =
     filter (\<lambda>a. num_gt (calculateInterest a Monthly) (Fin 0)) (interestEligibleAccounts accounts)"

text \<open>Scenario B: \<open>X\<close> after the transfer of scenario A.\<close>

definition acct_X70 :: account where
  "acct_X70 = an_account ''acc_1'' ''checking'' (Fin 70) (Some ''0.01%'')"

text \<open>A suspended account, a savings account at 2.5 percent, one whose rate is not a
  number, and one without a rate.\<close>

definition acct_suspended :: account where
  "acct_suspended = (an_account ''acc_1'' ''checking'' (Fin 100) (Some ''0.01%''))\<lparr>status := ''suspended''\<rparr>"

definition acct_R :: account where
  "acct_R = an_account ''acc_5'' ''savings'' (Fin 100) (Some ''2.5%'')"

definition acct_V :: account where
  "acct_V = an_account ''acc_6'' ''savings'' (Fin 0) (Some ''variable'')"

definition acct_N :: account where
  "acct_N = an_account ''acc_7'' ''savings'' (Fin 500) None"

text \<open>
  Two invocations of the interest handler in a row; the second one runs on the account
  list reloaded from the store, as the dashboard does after the first.
\<close>

definition accrual_once :: world where
  "accrual_once = snd (handleApplyInterest ticking [acct_S] (world_of [acct_S]))"

definition accrual_twice :: world where
  "accrual_twice = snd (handleApplyInterest ticking (db_accounts accrual_once) accrual_once)"

text \<open>
  Two transfers in a row while the clock stands still, the second on the reloaded
  account list.
\<close>

definition transfer_once :: world where
  "transfer_once =
     snd (snd (handleTransfer frozen [acct_X, acct_Y]
                 (transfer_form ''acc_1'' ''acc_2'' ''30.00'') (world_of [acct_X, acct_Y])))"

definition transfer_twice :: world where
  "transfer_twice =
     snd (snd (handleTransfer frozen (db_accounts transfer_once)
                 (transfer_form ''acc_1'' ''acc_2'' ''30.00'') transfer_once))"

text \<open>A transfer of 30.00 out of the suspended account.\<close>

definition suspended_transfer :: "toast \<times> form \<times> world" where
  "suspended_transfer =
     handleTransfer ticking [acct_suspended, acct_Y]
       (transfer_form ''acc_1'' ''acc_2'' ''30.00'') (world_of [acct_suspended, acct_Y])"

text \<open>Statuses reassigned by account id, in an account and in the store.\<close>

definition with_status :: "(string \<Rightarrow> string) \<Rightarrow> account \<Rightarrow> account" where
  "with_status g a = a\<lparr>status := g (id_acc a)\<rparr>"

definition world_with_status :: "(string \<Rightarrow> string) \<Rightarrow> world \<Rightarrow> world" where
  "world_with_status g w = w\<lparr>db_accounts := map (with_status g) (db_accounts w)\<rparr>"

subsection \<open>The interest of the specification\<close>

text \<open>
  Stated by the specification, not by the code: the monthly interest is
  \<open>balance \<times> (ratePerAnnum / 12)\<close> rounded half-to-even at minor-unit precision, that
  is to a whole number of cents. The rate is a fraction (2.40 percent is \<open>24 / 1000\<close>).
\<close>

definition round_half_even :: "rat \<Rightarrow> int" where
  "round_half_even x =
     (let f = \<lfloor>x\<rfloor>; d = x - of_int f
      in if d < 1 / 2 then f else if 1 / 2 < d then f + 1 else if even f then f else f + 1)"

definition spec_monthly_interest :: "rat \<Rightarrow> rat \<Rightarrow> rat" where
  "spec_monthly_interest bal ratePerAnnum =
     of_int (round_half_even (bal * (ratePerAnnum / 12) * 100)) / 100"

section \<open>Evaluation lemmas\<close>

lemma show_nat_numeral:
  "show_nat (numeral k) =
     (if (numeral k :: nat) < 10 then [digit_char (numeral k)]
      else show_nat (numeral k div 10) @ [digit_char (numeral k mod 10)])"
  by (rule show_nat.simps)

lemma show_nat_0: "show_nat 0 = ''0''"
  by (simp add: show_nat.simps [of 0] digit_char_def)

lemma show_nat_1: "show_nat (Suc 0) = ''1''"
  by (simp add: show_nat.simps [of "Suc 0"] digit_char_def)

lemmas show_nat_eval = show_nat_numeral show_nat_0 show_nat_1 digit_char_def

lemmas parseFloat_eval = parseFloat_def is_space_def is_digit_def digits_val_def digit_val_def

lemmas scenario_defs = an_account_def acct_X_def acct_Y_def world_of_def transfer_form_def
  ticking_def balances_of_def

lemmas store_defs = accounts_update_def transactions_create_def Date_now_def

section \<open>Facts about the store\<close>

lemma balances_of_accounts_update:
  "balances_of (accounts_update i v w) j =
     (if i = j then map (\<lambda>_. v) (balances_of w j) else balances_of w j)"
proof -
  have "map balance (filter (\<lambda>a. id_acc a = j)
          (map (\<lambda>a. if id_acc a = i then a\<lparr>balance := v\<rparr> else a) rows)) =
        (if i = j then map (\<lambda>_. v) (map balance (filter (\<lambda>a. id_acc a = j) rows))
         else map balance (filter (\<lambda>a. id_acc a = j) rows))" for rows :: "account list"
    by (induction rows) auto
  then show ?thesis
    by (simp add: balances_of_def accounts_update_def)
qed

lemma balances_of_transactions_create [simp]:
  "balances_of (transactions_create t w) j = balances_of w j"
  by (simp add: balances_of_def transactions_create_def)

lemma balances_of_now_calls [simp]:
  "balances_of (w\<lparr>now_calls := n\<rparr>) j = balances_of w j"
  by (simp add: balances_of_def)

lemma db_transactions_accounts_update [simp]:
  "db_transactions (accounts_update i v w) = db_transactions w"
  by (simp add: accounts_update_def)

lemma db_transactions_transactions_create [simp]:
  "db_transactions (transactions_create t w) = db_transactions w @ [t]"
  by (simp add: transactions_create_def)

lemma num_gt_iff_not_le: "num_lt b x \<Longrightarrow> num_gt x (Fin 0) = (\<not> num_le x (Fin 0))"
  by (cases x; cases b) auto

section \<open>Transfers\<close>

text \<open>
  Claim C8 (scenario A). A transfer of 30.00 from \<open>X\<close> with balance 100.00 to \<open>Y\<close> with
  balance 50.00 leaves \<open>X\<close> at 70.00 and \<open>Y\<close> at 80.00 and creates exactly one
  transaction, a completed transfer of 30.00 from \<open>X\<close> to \<open>Y\<close>, whatever the clock
  reads.
\<close>

theorem scenario_A_transfer:
  "fst (handleTransfer clk [acct_X, acct_Y] (transfer_form ''acc_1'' ''acc_2'' ''30.00'')
          (world_of [acct_X, acct_Y]))
     = Transfer_Success (Fin 30) \<and>
   balances_of (snd (snd (handleTransfer clk [acct_X, acct_Y]
       (transfer_form ''acc_1'' ''acc_2'' ''30.00'') (world_of [acct_X, acct_Y])))) ''acc_1''
     = [Fin 70] \<and>
   balances_of (snd (snd (handleTransfer clk [acct_X, acct_Y]
       (transfer_form ''acc_1'' ''acc_2'' ''30.00'') (world_of [acct_X, acct_Y])))) ''acc_2''
     = [Fin 80] \<and>
   map (\<lambda>t. (transactionType t, status_txn t, amount t, fromAccountId t, toAccountId t))
     (db_transactions (snd (snd (handleTransfer clk [acct_X, acct_Y]
       (transfer_form ''acc_1'' ''acc_2'' ''30.00'') (world_of [acct_X, acct_Y])))))
     = [(''transfer'', ''completed'', Fin 30, Some ''acc_1'', Some ''acc_2'')]"
  by (simp add: handleTransfer_def parseFloat_eval scenario_defs store_defs Let_def)

text \<open>
  Claim C3. A transfer request whose amount is at most 0, or whose source and
  destination are the same account, fails: the handler shows an error, and the form and
  the world (every balance, the transaction table) are what they were.
\<close>

theorem transfer_rejected_without_effect:
  assumes "num_le (parseFloat (amount_field f)) (Fin 0) \<or> fromAccount f = toAccount f"
  shows "\<exists>msg. handleTransfer clk accounts f w = (Toast_Error msg, f, w)"
  using assms by (auto simp: handleTransfer_def Let_def split: option.splits)

theorem transfer_rejected_without_effect_witness:
  "num_le (parseFloat (amount_field (transfer_form ''acc_1'' ''acc_2'' ''-5.00''))) (Fin 0) \<and>
   (\<exists>msg. handleTransfer ticking [acct_X, acct_Y] (transfer_form ''acc_1'' ''acc_2'' ''-5.00'')
             (world_of [acct_X, acct_Y])
      = (Toast_Error msg, transfer_form ''acc_1'' ''acc_2'' ''-5.00'', world_of [acct_X, acct_Y])) \<and>
   fromAccount (transfer_form ''acc_1'' ''acc_1'' ''30.00'') =
     toAccount (transfer_form ''acc_1'' ''acc_1'' ''30.00'') \<and>
   (\<exists>msg. handleTransfer ticking [acct_X, acct_Y] (transfer_form ''acc_1'' ''acc_1'' ''30.00'')
             (world_of [acct_X, acct_Y])
      = (Toast_Error msg, transfer_form ''acc_1'' ''acc_1'' ''30.00'', world_of [acct_X, acct_Y]))"
proof -
  have h: "num_le (parseFloat (amount_field (transfer_form ''acc_1'' ''acc_2'' ''-5.00''))) (Fin 0)"
    by (simp add: transfer_form_def parseFloat_eval)
  have k: "fromAccount (transfer_form ''acc_1'' ''acc_1'' ''30.00'') =
             toAccount (transfer_form ''acc_1'' ''acc_1'' ''30.00'')"
    by (simp add: transfer_form_def)
  from h k
    transfer_rejected_without_effect
      [of "transfer_form ''acc_1'' ''acc_2'' ''-5.00''" ticking "[acct_X, acct_Y]"
          "world_of [acct_X, acct_Y]"]
    transfer_rejected_without_effect
      [of "transfer_form ''acc_1'' ''acc_1'' ''30.00''" ticking "[acct_X, acct_Y]"
          "world_of [acct_X, acct_Y]"]
  show ?thesis by blast
qed

text \<open>
  Claim C4 (scenario B). A transfer whose amount exceeds the balance of the source
  account fails and leaves the form and the world as they were: no balance changes and
  no transaction is created. The error is the insufficient-funds error whenever the
  request gets as far as that check, that is when the fields are filled in, the two
  accounts differ and the amount is greater than 0; the checks before it report their
  own error.
\<close>

theorem insufficient_funds_rejected:
  assumes "find (\<lambda>acc. id_acc acc = fromAccount f) accounts = Some sourceAccount"
    and "num_lt (balance sourceAccount) (parseFloat (amount_field f))"
  shows "(\<exists>msg. handleTransfer clk accounts f w = (Toast_Error msg, f, w)) \<and>
         (fromAccount f \<noteq> [] \<and> toAccount f \<noteq> [] \<and> fromAccount f \<noteq> toAccount f \<and>
          num_gt (parseFloat (amount_field f)) (Fin 0) \<longrightarrow>
          handleTransfer clk accounts f w =
            (Toast_Error ''Insufficient funds in source account'', f, w))"
proof -
  have ne: "amount_field f \<noteq> []"
    using assms(2) by (auto simp: parseFloat_def)
  show ?thesis
    using assms ne num_gt_iff_not_le [OF assms(2)]
    by (auto simp: handleTransfer_def Let_def)
qed

theorem insufficient_funds_rejected_witness:
  "find (\<lambda>acc. id_acc acc = fromAccount (transfer_form ''acc_1'' ''acc_2'' ''100.00''))
     [acct_X70, acct_Y] = Some acct_X70 \<and>
   num_lt (balance acct_X70)
     (parseFloat (amount_field (transfer_form ''acc_1'' ''acc_2'' ''100.00''))) \<and>
   handleTransfer ticking [acct_X70, acct_Y] (transfer_form ''acc_1'' ''acc_2'' ''100.00'')
     (world_of [acct_X70, acct_Y])
     = (Toast_Error ''Insufficient funds in source account'',
        transfer_form ''acc_1'' ''acc_2'' ''100.00'', world_of [acct_X70, acct_Y])"
proof -
  have h1: "find (\<lambda>acc. id_acc acc = fromAccount (transfer_form ''acc_1'' ''acc_2'' ''100.00''))
              [acct_X70, acct_Y] = Some acct_X70"
    by (simp add: scenario_defs acct_X70_def)
  have h2: "num_lt (balance acct_X70)
              (parseFloat (amount_field (transfer_form ''acc_1'' ''acc_2'' ''100.00'')))"
    by (simp add: scenario_defs acct_X70_def parseFloat_eval)
  have h3: "fromAccount (transfer_form ''acc_1'' ''acc_2'' ''100.00'') \<noteq> [] \<and>
            toAccount (transfer_form ''acc_1'' ''acc_2'' ''100.00'') \<noteq> [] \<and>
            fromAccount (transfer_form ''acc_1'' ''acc_2'' ''100.00'') \<noteq>
              toAccount (transfer_form ''acc_1'' ''acc_2'' ''100.00'') \<and>
            num_gt (parseFloat (amount_field (transfer_form ''acc_1'' ''acc_2'' ''100.00''))) (Fin 0)"
    by (simp add: scenario_defs acct_X70_def parseFloat_eval)
  from insufficient_funds_rejected [OF h1 h2, of ticking "world_of [acct_X70, acct_Y]"] h1 h2 h3
  show ?thesis by blast
qed

text \<open>
  Claim C9. A transfer whose amount equals the balance of the source account (the
  fields filled in, the two accounts different, the amount greater than 0) is not
  rejected: the handler reports success, every row of the source account gets the
  balance 0, and one completed transfer of that amount is appended to the
  transactions.
\<close>

theorem whole_balance_transfer_succeeds:
  assumes "fromAccount f \<noteq> []" and "toAccount f \<noteq> []" and "fromAccount f \<noteq> toAccount f"
    and "find (\<lambda>acc. id_acc acc = fromAccount f) accounts = Some sourceAccount"
    and "num_eq (parseFloat (amount_field f)) (balance sourceAccount)"
    and "num_gt (parseFloat (amount_field f)) (Fin 0)"
  shows "fst (handleTransfer clk accounts f w) = Transfer_Success (parseFloat (amount_field f)) \<and>
         balances_of (snd (snd (handleTransfer clk accounts f w))) (fromAccount f)
           = map (\<lambda>_. Fin 0) (balances_of w (fromAccount f)) \<and>
         map (\<lambda>t. (transactionType t, status_txn t, amount t))
             (db_transactions (snd (snd (handleTransfer clk accounts f w))))
           = map (\<lambda>t. (transactionType t, status_txn t, amount t)) (db_transactions w) @
             [(''transfer'', ''completed'', parseFloat (amount_field f))]"
proof -
  obtain a where a: "parseFloat (amount_field f) = Fin a" "balance sourceAccount = Fin a" "0 < a"
    using assms(5,6) by (cases "parseFloat (amount_field f)"; cases "balance sourceAccount") auto
  have ne: "amount_field f \<noteq> []"
    using a(1) by (auto simp: parseFloat_def)
  show ?thesis
    using assms(1-4) ne a
    by (simp add: handleTransfer_def Let_def Date_now_def balances_of_accounts_update
        split: option.splits)
qed

theorem whole_balance_transfer_succeeds_witness:
  "fromAccount (transfer_form ''acc_1'' ''acc_2'' ''100.00'') \<noteq> [] \<and>
   toAccount (transfer_form ''acc_1'' ''acc_2'' ''100.00'') \<noteq> [] \<and>
   fromAccount (transfer_form ''acc_1'' ''acc_2'' ''100.00'') \<noteq>
     toAccount (transfer_form ''acc_1'' ''acc_2'' ''100.00'') \<and>
   find (\<lambda>acc. id_acc acc = fromAccount (transfer_form ''acc_1'' ''acc_2'' ''100.00''))
     [acct_X, acct_Y] = Some acct_X \<and>
   num_eq (parseFloat (amount_field (transfer_form ''acc_1'' ''acc_2'' ''100.00''))) (balance acct_X) \<and>
   num_gt (parseFloat (amount_field (transfer_form ''acc_1'' ''acc_2'' ''100.00''))) (Fin 0) \<and>
   fst (handleTransfer ticking [acct_X, acct_Y] (transfer_form ''acc_1'' ''acc_2'' ''100.00'')
          (world_of [acct_X, acct_Y]))
     = Transfer_Success (Fin 100) \<and>
   balances_of (snd (snd (handleTransfer ticking [acct_X, acct_Y]
       (transfer_form ''acc_1'' ''acc_2'' ''100.00'') (world_of [acct_X, acct_Y])))) ''acc_1''
     = [Fin 0]"
proof -
  have h: "fromAccount (transfer_form ''acc_1'' ''acc_2'' ''100.00'') \<noteq> []"
    "toAccount (transfer_form ''acc_1'' ''acc_2'' ''100.00'') \<noteq> []"
    "fromAccount (transfer_form ''acc_1'' ''acc_2'' ''100.00'') \<noteq>
       toAccount (transfer_form ''acc_1'' ''acc_2'' ''100.00'')"
    "find (\<lambda>acc. id_acc acc = fromAccount (transfer_form ''acc_1'' ''acc_2'' ''100.00''))
       [acct_X, acct_Y] = Some acct_X"
    "num_eq (parseFloat (amount_field (transfer_form ''acc_1'' ''acc_2'' ''100.00''))) (balance acct_X)"
    "num_gt (parseFloat (amount_field (transfer_form ''acc_1'' ''acc_2'' ''100.00''))) (Fin 0)"
    by (simp_all add: scenario_defs parseFloat_eval)
  have p: "parseFloat (amount_field (transfer_form ''acc_1'' ''acc_2'' ''100.00'')) = Fin 100"
    by (simp add: scenario_defs parseFloat_eval)
  have b: "balances_of (world_of [acct_X, acct_Y]) ''acc_1'' = [Fin 100]"
    "fromAccount (transfer_form ''acc_1'' ''acc_2'' ''100.00'') = ''acc_1''"
    by (simp_all add: scenario_defs)
  from whole_balance_transfer_succeeds [OF h, of ticking "world_of [acct_X, acct_Y]"] h
  show ?thesis by (simp add: p b)
qed

text \<open>
  Claim C1. The sum of the two balances is not kept when the destination id is not in
  the account list of the component. With \<open>X\<close> at 100.00 and \<open>Y\<close> at 50.00 in the store
  and only \<open>X\<close> in the list, a transfer of 30.00 from \<open>X\<close> to \<open>Y\<close> passes validation,
  reports success and records a completed transfer, debits \<open>X\<close> to 70.00 and credits
  nothing: the two balances sum to 120.00 instead of 150.00. The source account is looked
  up before anything is written and its absence is refused; the destination is looked
  up only after the debit has been written.
\<close>

theorem unlisted_destination_loses_funds:
  "find (\<lambda>acc. id_acc acc = ''acc_2'') [acct_X] = None \<and>
   balances_of (world_of [acct_X, acct_Y]) ''acc_1'' = [Fin 100] \<and>
   balances_of (world_of [acct_X, acct_Y]) ''acc_2'' = [Fin 50] \<and>
   fst (handleTransfer clk [acct_X] (transfer_form ''acc_1'' ''acc_2'' ''30.00'')
          (world_of [acct_X, acct_Y]))
     = Transfer_Success (Fin 30) \<and>
   balances_of (snd (snd (handleTransfer clk [acct_X]
       (transfer_form ''acc_1'' ''acc_2'' ''30.00'') (world_of [acct_X, acct_Y])))) ''acc_1''
     = [Fin 70] \<and>
   balances_of (snd (snd (handleTransfer clk [acct_X]
       (transfer_form ''acc_1'' ''acc_2'' ''30.00'') (world_of [acct_X, acct_Y])))) ''acc_2''
     = [Fin 50] \<and>
   map (\<lambda>t. (transactionType t, status_txn t, amount t, fromAccountId t, toAccountId t))
     (db_transactions (snd (snd (handleTransfer clk [acct_X]
       (transfer_form ''acc_1'' ''acc_2'' ''30.00'') (world_of [acct_X, acct_Y])))))
     = [(''transfer'', ''completed'', Fin 30, Some ''acc_1'', Some ''acc_2'')]"
  by (simp add: handleTransfer_def parseFloat_eval scenario_defs store_defs Let_def)

text \<open>
  When the destination is in the list, the list agrees with the store and the amount is
  a number, the same handler does keep the sum: the debit and the credit cancel.
\<close>

lemma listed_destination_keeps_sum:
  assumes "fromAccount f \<noteq> []" and "toAccount f \<noteq> []" and "fromAccount f \<noteq> toAccount f"
    and "find (\<lambda>acc. id_acc acc = fromAccount f) accounts = Some sourceAccount"
    and "find (\<lambda>acc. id_acc acc = toAccount f) accounts = Some targetAccount"
    and "parseFloat (amount_field f) = Fin x" and "0 < x"
    and "balance sourceAccount = Fin a" and "balance targetAccount = Fin b" and "x \<le> a"
    and "balances_of w (fromAccount f) = [Fin a]" and "balances_of w (toAccount f) = [Fin b]"
  shows "\<exists>a' b'. balances_of (snd (snd (handleTransfer clk accounts f w))) (fromAccount f) = [Fin a'] \<and>
                 balances_of (snd (snd (handleTransfer clk accounts f w))) (toAccount f) = [Fin b'] \<and>
                 a' + b' = a + b"
proof -
  have ne: "amount_field f \<noteq> []"
    using assms(6) by (auto simp: parseFloat_def)
  have "balances_of (snd (snd (handleTransfer clk accounts f w))) (fromAccount f) = [Fin (a - x)] \<and>
        balances_of (snd (snd (handleTransfer clk accounts f w))) (toAccount f) = [Fin (b + x)]"
    using assms ne
    by (simp add: handleTransfer_def Let_def Date_now_def balances_of_accounts_update)
  then show ?thesis by force
qed

subsection \<open>Account status\<close>

lemma find_map_with_status:
  "find (\<lambda>acc. id_acc acc = i) (map (with_status g) accounts) =
     map_option (with_status g) (find (\<lambda>acc. id_acc acc = i) accounts)"
  by (induction accounts) (auto simp: with_status_def)

lemma balance_with_status [simp]: "balance (with_status g a) = balance a"
  by (simp add: with_status_def)

lemma accounts_update_with_status:
  "accounts_update i v (world_with_status h w) = world_with_status h (accounts_update i v w)"
  by (simp add: accounts_update_def world_with_status_def with_status_def)

lemma transactions_create_with_status:
  "transactions_create t (world_with_status h w) = world_with_status h (transactions_create t w)"
  by (simp add: transactions_create_def world_with_status_def)

lemma Date_now_with_status:
  "Date_now clk (world_with_status h w) =
     (fst (Date_now clk w), world_with_status h (snd (Date_now clk w)))"
  by (simp add: Date_now_def world_with_status_def)

text \<open>
  Claim C7, as the code has it. The handler never reads the status of an account: a
  transfer is validated and executed in the same way whatever statuses the accounts of
  the list and the rows of the store carry. Reassigning the statuses (by any functions
  \<open>g\<close> and \<open>h\<close> of the account id) changes neither the toast nor the form, and the
  resulting world is the one of the original run with its statuses reassigned.
\<close>

theorem transfer_ignores_status:
  "handleTransfer clk (map (with_status g) accounts) f (world_with_status h w) =
     (case handleTransfer clk accounts f w of (t, f', w') \<Rightarrow> (t, f', world_with_status h w'))"
  by (simp add: handleTransfer_def Let_def find_map_with_status Date_now_with_status
      transactions_create_with_status accounts_update_with_status split_beta
      split: option.splits)

text \<open>
  Claim C7 as stated fails: a transfer of 30.00 out of a suspended account with balance
  100.00 succeeds, moves the money and records a completed transfer.
\<close>

theorem suspended_source_transfers:
  "status acct_suspended = ''suspended'' \<and>
   fst suspended_transfer = Transfer_Success (Fin 30) \<and>
   balances_of (snd (snd suspended_transfer)) ''acc_1'' = [Fin 70] \<and>
   balances_of (snd (snd suspended_transfer)) ''acc_2'' = [Fin 80] \<and>
   map transactionType (db_transactions (snd (snd suspended_transfer))) = [''transfer''] \<and>
   map status_txn (db_transactions (snd (snd suspended_transfer))) = [''completed''] \<and>
   map amount (db_transactions (snd (snd suspended_transfer))) = [Fin 30]"
  by (simp add: suspended_transfer_def handleTransfer_def parseFloat_eval scenario_defs acct_suspended_def
      store_defs Let_def)

section \<open>Reference numbers\<close>

lemma digit_char_inj: "d < 10 \<Longrightarrow> e < 10 \<Longrightarrow> digit_char d = digit_char e \<Longrightarrow> d = e"
  unfolding digit_char_def using nth_eq_iff_index_eq [of "''0123456789''" d e] by simp

lemma show_nat_nonempty: "show_nat n \<noteq> []"
  by (subst show_nat.simps) simp

text \<open>Two numbers with the same decimal rendering are equal.\<close>

lemma show_nat_inj: "show_nat m = show_nat n \<Longrightarrow> m = n"
proof (induction m arbitrary: n rule: show_nat.induct)
  case (1 m)
  have sm: "show_nat m = (if m < 10 then [digit_char m]
                          else show_nat (m div 10) @ [digit_char (m mod 10)])"
    by (rule show_nat.simps)
  have sn: "show_nat n = (if n < 10 then [digit_char n]
                          else show_nat (n div 10) @ [digit_char (n mod 10)])"
    by (rule show_nat.simps)
  show ?case
  proof (cases "m < 10")
    case small_m: True
    show ?thesis
    proof (cases "n < 10")
      case True
      with small_m "1.prems" sm sn show ?thesis
        by (simp add: digit_char_inj)
    next
      case False
      with small_m "1.prems" sm sn show_nat_nonempty [of "n div 10"] show ?thesis
        by (cases "show_nat (n div 10)") auto
    qed
  next
    case big_m: False
    show ?thesis
    proof (cases "n < 10")
      case True
      with big_m "1.prems" sm sn show_nat_nonempty [of "m div 10"] show ?thesis
        by (cases "show_nat (m div 10)") auto
    next
      case False
      with big_m "1.prems" sm sn
      have eq: "show_nat (m div 10) = show_nat (n div 10)"
        and d: "digit_char (m mod 10) = digit_char (n mod 10)"
        by auto
      from "1.IH" [OF big_m eq] have q: "m div 10 = n div 10" .
      from d have r: "m mod 10 = n mod 10"
        by (simp add: digit_char_inj)
      from q r show ?thesis
        by (metis div_mult_mod_eq)
    qed
  qed
qed

text \<open>
  Claim C5, as the code has it. A reference number is a fixed prefix followed by the
  clock reading, with no counter: two transfer references are equal exactly when the
  two readings are equal, and so are two interest references. Two calls are told apart
  only by a difference of their millisecond readings.
\<close>

theorem references_equal_iff_readings_equal:
  "(transfer_reference t1 = transfer_reference t2) = (t1 = t2) \<and>
   (interest_reference t1 = interest_reference t2) = (t1 = t2)"
  by (auto simp: transfer_reference_def interest_reference_def dest: show_nat_inj)

text \<open>
  Claim C5 as stated fails: two transfers made while the clock stands still (the first
  and the third reading are the same millisecond) create two transaction records with
  the same reference number.
\<close>

theorem same_millisecond_same_reference:
  "frozen 0 = frozen 2 \<and>
   map referenceNumber (db_transactions transfer_twice) =
     [''TXN1700000000000'', ''TXN1700000000000''] \<and>
   map amount (db_transactions transfer_twice) = [Fin 30, Fin 30] \<and>
   balances_of transfer_twice ''acc_1'' = [Fin 40]"
  by (simp add: transfer_twice_def transfer_once_def handleTransfer_def parseFloat_eval
      scenario_defs frozen_def store_defs Let_def transfer_reference_def show_nat_eval)

section \<open>Interest\<close>

lemma db_transactions_Date_now [simp]:
  "db_transactions (snd (Date_now clk w)) = db_transactions w"
  by (simp add: Date_now_def)

lemma applyInterestLoop_append:
  "applyInterestLoop clk (xs @ ys) st = applyInterestLoop clk ys (applyInterestLoop clk xs st)"
proof (induction xs arbitrary: st)
  case Nil
  then show ?case by (cases st) simp
next
  case (Cons a xs)
  then show ?case by (cases st) (simp add: Let_def split_beta)
qed

lemma applyInterestLoop_skip:
  "\<not> num_gt (calculateInterest a Monthly) (Fin 0) \<Longrightarrow> applyInterestLoop clk [a] st = st"
  by (cases st) simp

text \<open>
  Any view \<open>p\<close> of the transactions that does not depend on the clock: the loop appends
  one transaction per account whose interest is greater than 0, in the order of the
  list.
\<close>

lemma applyInterestLoop_transactions:
  assumes "\<And>a t1 t2. p (interest_transaction a (calculateInterest a Monthly) t1 t2) = q a"
  shows "map p (db_transactions (snd (applyInterestLoop clk accts (tot, w)))) =
           map p (db_transactions w) @
           map q (filter (\<lambda>a. num_gt (calculateInterest a Monthly) (Fin 0)) accts)"
proof (induction accts arbitrary: tot w)
  case Nil
  then show ?case by simp
next
  case (Cons a accts)
  then show ?case
    by (simp add: Let_def split_beta assms)
qed

lemma posted_projection:
  assumes "\<And>a t1 t2. p (interest_transaction a (calculateInterest a Monthly) t1 t2) = q a"
  shows "map p (posted clk accounts w) = map q (earning accounts)"
proof (cases "interestEligibleAccounts accounts = []")
  case True
  then show ?thesis
    by (simp add: posted_def earning_def handleApplyInterest_def)
next
  case False
  have "map p (posted clk accounts w) =
          drop (length (db_transactions w))
            (map p (db_transactions
               (snd (applyInterestLoop clk (interestEligibleAccounts accounts) (Fin 0, w)))))"
    using False by (simp add: posted_def handleApplyInterest_def split_beta drop_map)
  also have "\<dots> = map q (earning accounts)"
    by (simp add: applyInterestLoop_transactions [of p q, OF assms] earning_def)
  finally show ?thesis .
qed

text \<open>The loop only appends to the transactions, and so does the handler.\<close>

lemma applyInterestLoop_extends:
  "\<exists>ts. db_transactions (snd (applyInterestLoop clk accts (tot, w))) = db_transactions w @ ts"
proof (induction accts arbitrary: tot w)
  case Nil
  then show ?case by simp
next
  case (Cons a accts)
  show ?case
  proof (cases "num_gt (calculateInterest a Monthly) (Fin 0)")
    case False
    with Cons.IH [of tot w] show ?thesis by simp
  next
    case True
    define w4 where "w4 =
      transactions_create
        (interest_transaction a (calculateInterest a Monthly)
           (fst (Date_now clk (accounts_update (id_acc a)
              (num_add (balance a) (calculateInterest a Monthly)) w)))
           (fst (Date_now clk (snd (Date_now clk (accounts_update (id_acc a)
              (num_add (balance a) (calculateInterest a Monthly)) w))))))
        (snd (Date_now clk (snd (Date_now clk (accounts_update (id_acc a)
              (num_add (balance a) (calculateInterest a Monthly)) w)))))"
    have step: "applyInterestLoop clk (a # accts) (tot, w) =
                  applyInterestLoop clk accts (num_add tot (calculateInterest a Monthly), w4)"
      using True by (simp add: Let_def split_beta w4_def)
    have old: "\<exists>t. db_transactions w4 = db_transactions w @ [t]"
      by (simp add: w4_def)
    from Cons.IH [of "num_add tot (calculateInterest a Monthly)" w4] old step
    show ?thesis by auto
  qed
qed

lemma handleApplyInterest_appends:
  "db_transactions (snd (handleApplyInterest clk accounts w)) =
     db_transactions w @ posted clk accounts w"
proof -
  have "\<exists>ts. db_transactions (snd (handleApplyInterest clk accounts w)) = db_transactions w @ ts"
    using applyInterestLoop_extends [of clk "interestEligibleAccounts accounts" "Fin 0" w]
    by (simp add: handleApplyInterest_def split_beta)
  then show ?thesis
    by (auto simp: posted_def)
qed

lemma calculateInterest_Fin:
  "balance a = Fin b \<Longrightarrow> parseFloat (rate_text a) = Fin r \<Longrightarrow>
   calculateInterest a Monthly = Fin (b * (r / 100) * (1 / 12))"
  by (simp add: calculateInterest_def)

lemma floor_125_6: "\<lfloor>125 / 6 :: rat\<rfloor> = 20"
  by (rule floor_unique) simp_all

lemma spec_interest_R: "spec_monthly_interest 100 (25 / 1000) = 21 / 100"
  by (simp add: spec_monthly_interest_def round_half_even_def Let_def floor_125_6)

text \<open>
  Claim C2, as the code has it. The handler keeps no accrual period and reads nothing
  from the store: each invocation, whatever the store already holds, keeps the
  transactions that are there and posts after them one completed interest transaction
  for every eligible account of its list whose monthly interest is greater than 0, in
  the order of the list. An invocation that follows another one in the same period
  therefore posts again.
\<close>

theorem every_invocation_posts_interest:
  "db_transactions (snd (handleApplyInterest clk accounts w)) =
     db_transactions w @ posted clk accounts w \<and>
   map (\<lambda>t. (transactionType t, toAccountId t, status_txn t)) (posted clk accounts w) =
     map (\<lambda>a. (''interest'', Some (id_acc a), ''completed'')) (earning accounts)"
proof
  show "db_transactions (snd (handleApplyInterest clk accounts w)) =
          db_transactions w @ posted clk accounts w"
    by (rule handleApplyInterest_appends)
  show "map (\<lambda>t. (transactionType t, toAccountId t, status_txn t)) (posted clk accounts w) =
          map (\<lambda>a. (''interest'', Some (id_acc a), ''completed'')) (earning accounts)"
    by (rule posted_projection) (simp add: interest_transaction_def)
qed

text \<open>
  Claim C2 as stated fails: for a savings account with balance 1000.00 at 2.40 percent,
  the first invocation posts 2.00 and leaves 1002.00; a second invocation, two clock
  readings later and on the reloaded account list, posts 2.004 more and leaves
  1004.004, with two interest transactions for the account.
\<close>

theorem second_invocation_posts_again:
  "balances_of accrual_once ''acc_3'' = [Fin 1002] \<and>
   map transactionType (db_transactions accrual_once) = [''interest''] \<and>
   map toAccountId (db_transactions accrual_once) = [Some ''acc_3''] \<and>
   map amount (db_transactions accrual_once) = [Fin 2] \<and>
   balances_of accrual_twice ''acc_3'' = [Fin (251001 / 250)] \<and>
   map transactionType (db_transactions accrual_twice) = [''interest'', ''interest''] \<and>
   map toAccountId (db_transactions accrual_twice) = [Some ''acc_3'', Some ''acc_3''] \<and>
   map amount (db_transactions accrual_twice) = [Fin 2, Fin (501 / 250)]"
  by (simp add: accrual_twice_def accrual_once_def handleApplyInterest_def
      interestEligibleAccounts_def calculateInterest_def rate_text_def parseFloat_eval
      interest_transaction_def scenario_defs acct_S_def store_defs Let_def)

text \<open>
  Claim C6, as the code has it. The amount of each posted interest transaction is the
  value of \<open>calculateInterest\<close> for the account, and for a numeric balance \<open>b\<close> and a
  rate text that parses to \<open>r\<close> percent this is \<open>b \<times> (r / 100) \<times> (1 / 12)\<close>, not rounded.
  A balance of 1000.00 at 2.40 percent posts exactly 2.00 (the witness).
\<close>

theorem posted_interest_is_unrounded:
  "map amount (posted clk accounts w) = map (\<lambda>a. calculateInterest a Monthly) (earning accounts) \<and>
   (balance a = Fin b \<and> parseFloat (rate_text a) = Fin r \<longrightarrow>
      calculateInterest a Monthly = Fin (b * (r / 100) * (1 / 12)))"
proof
  show "map amount (posted clk accounts w) =
          map (\<lambda>a. calculateInterest a Monthly) (earning accounts)"
    by (rule posted_projection) (simp add: interest_transaction_def)
  show "balance a = Fin b \<and> parseFloat (rate_text a) = Fin r \<longrightarrow>
          calculateInterest a Monthly = Fin (b * (r / 100) * (1 / 12))"
    by (simp add: calculateInterest_Fin)
qed

theorem posted_interest_is_unrounded_witness:
  "balance acct_S = Fin 1000 \<and> parseFloat (rate_text acct_S) = Fin (12 / 5) \<and>
   calculateInterest acct_S Monthly = Fin 2 \<and>
   map amount (posted ticking [acct_S] (world_of [acct_S])) = [Fin 2]"
proof -
  have h: "balance acct_S = Fin 1000 \<and> parseFloat (rate_text acct_S) = Fin (12 / 5)"
    by (simp add: scenario_defs acct_S_def rate_text_def parseFloat_eval)
  have e: "earning [acct_S] = [acct_S]"
    by (simp add: earning_def interestEligibleAccounts_def calculateInterest_def rate_text_def
        parseFloat_eval scenario_defs acct_S_def)
  from posted_interest_is_unrounded
         [of ticking "[acct_S]" "world_of [acct_S]" acct_S 1000 "12 / 5"] h e
  show ?thesis by simp
qed

text \<open>
  Claim C6 as stated fails: a savings account with balance 100.00 at 2.5 percent is
  posted 5/24 (0.208333...), where the specification's half-to-even rounding to cents
  gives 0.21.
\<close>

theorem posted_interest_not_rounded_to_cents:
  "balance acct_R = Fin 100 \<and> parseFloat (rate_text acct_R) = Fin (5 / 2) \<and>
   calculateInterest acct_R Monthly = Fin (5 / 24) \<and>
   map amount (posted ticking [acct_R] (world_of [acct_R])) = [Fin (5 / 24)] \<and>
   spec_monthly_interest 100 (25 / 1000) = 21 / 100 \<and>
   calculateInterest acct_R Monthly \<noteq> Fin (spec_monthly_interest 100 (25 / 1000))"
proof -
  have "balance acct_R = Fin 100 \<and> parseFloat (rate_text acct_R) = Fin (5 / 2) \<and>
        calculateInterest acct_R Monthly = Fin (5 / 24) \<and>
        map amount (posted ticking [acct_R] (world_of [acct_R])) = [Fin (5 / 24)]"
    by (simp add: posted_def handleApplyInterest_def interestEligibleAccounts_def
        calculateInterest_def rate_text_def parseFloat_eval interest_transaction_def
        scenario_defs acct_R_def store_defs Let_def)
  moreover have "Fin (5 / 24) \<noteq> Fin (spec_monthly_interest 100 (25 / 1000))"
    unfolding spec_interest_R by simp
  ultimately show ?thesis
    using spec_interest_R by metis
qed

text \<open>
  Claim C10, as the code has it. For an account whose rate is absent or parses to 0, or
  whose balance is 0, the computed interest is not greater than 0: it is exactly 0
  when the balance and the parsed rate are both finite numbers, and \<open>NaN\<close> when one of
  them is not a finite number (the product of 0 and a value that is not a finite number
  is \<open>NaN\<close>). In every case the handler skips the account: the resulting world is the one
  it would produce if the account were not in the list, so its balance is not written
  and no transaction is created for it.
\<close>

theorem zero_interest_account_is_skipped:
  assumes "interestRate a = None \<or> parseFloat (rate_text a) = Fin 0 \<or> balance a = Fin 0"
  shows "\<not> num_gt (calculateInterest a Monthly) (Fin 0) \<and>
         (is_finite (balance a) \<and> is_finite (parseFloat (rate_text a)) \<longrightarrow>
            calculateInterest a Monthly = Fin 0) \<and>
         (\<not> (is_finite (balance a) \<and> is_finite (parseFloat (rate_text a))) \<longrightarrow>
            calculateInterest a Monthly = NaN) \<and>
         snd (handleApplyInterest clk (pre @ a # post) w) =
           snd (handleApplyInterest clk (pre @ post) w)"
proof -
  have r0: "interestRate a = None \<Longrightarrow> parseFloat (rate_text a) = Fin 0"
    by (simp add: rate_text_def parseFloat_eval)
  have zero: "is_finite (balance a) \<and> is_finite (parseFloat (rate_text a)) \<longrightarrow>
                calculateInterest a Monthly = Fin 0"
    using assms r0
    by (cases "balance a"; cases "parseFloat (rate_text a)") (auto simp: calculateInterest_def)
  have nan: "\<not> (is_finite (balance a) \<and> is_finite (parseFloat (rate_text a))) \<longrightarrow>
                calculateInterest a Monthly = NaN"
    by (cases "balance a"; cases "parseFloat (rate_text a)") (auto simp: calculateInterest_def)
  have nopos: "\<not> num_gt (calculateInterest a Monthly) (Fin 0)"
    using assms r0
    by (cases "balance a"; cases "parseFloat (rate_text a)") (auto simp: calculateInterest_def)
  have skip: "applyInterestLoop clk (xs @ a # ys) st = applyInterestLoop clk (xs @ ys) st"
    for xs ys st
    using applyInterestLoop_append [of clk xs "[a] @ ys" st]
      applyInterestLoop_append [of clk "[a]" ys "applyInterestLoop clk xs st"]
      applyInterestLoop_skip [OF nopos, of clk "applyInterestLoop clk xs st"]
    by (simp add: applyInterestLoop_append)
  have same: "snd (handleApplyInterest clk (pre @ a # post) w) =
                snd (handleApplyInterest clk (pre @ post) w)"
  proof (cases "accountType a = ''savings'' \<or> accountType a = ''investment'' \<or>
                accountType a = ''business''")
    case False
    then have "interestEligibleAccounts (pre @ a # post) = interestEligibleAccounts (pre @ post)"
      by (simp add: interestEligibleAccounts_def)
    then show ?thesis
      by (simp add: handleApplyInterest_def)
  next
    case True
    then have e: "interestEligibleAccounts (pre @ a # post) =
                    interestEligibleAccounts pre @ a # interestEligibleAccounts post"
      and e': "interestEligibleAccounts (pre @ post) =
                    interestEligibleAccounts pre @ interestEligibleAccounts post"
      by (simp_all add: interestEligibleAccounts_def)
    show ?thesis
    proof (cases "interestEligibleAccounts pre @ interestEligibleAccounts post = []")
      case True
      then show ?thesis
        using applyInterestLoop_skip [OF nopos, of clk "(Fin 0, w)"]
        by (simp add: handleApplyInterest_def e e')
    next
      case False
      then show ?thesis
        by (simp add: handleApplyInterest_def e e' skip split_beta)
    qed
  qed
  from nopos zero nan same show ?thesis by blast
qed

text \<open>
  Both halves at concrete accounts: a savings account with balance 500.00 and no rate
  computes 0, one with balance 0 and the rate text \<open>variable\<close> computes \<open>NaN\<close>, and both
  are skipped.
\<close>

theorem zero_interest_account_is_skipped_witness:
  "interestRate acct_N = None \<and>
   is_finite (balance acct_N) \<and> is_finite (parseFloat (rate_text acct_N)) \<and>
   calculateInterest acct_N Monthly = Fin 0 \<and>
   snd (handleApplyInterest ticking [acct_N] (world_of [acct_N])) = world_of [acct_N] \<and>
   balance acct_V = Fin 0 \<and>
   \<not> is_finite (parseFloat (rate_text acct_V)) \<and>
   calculateInterest acct_V Monthly = NaN \<and>
   snd (handleApplyInterest ticking [acct_V] (world_of [acct_V])) = world_of [acct_V]"
proof -
  have hN: "interestRate acct_N = None" "is_finite (balance acct_N)"
    "is_finite (parseFloat (rate_text acct_N))"
    by (simp_all add: rate_text_def scenario_defs acct_N_def parseFloat_eval)
  have hV: "balance acct_V = Fin 0" "\<not> is_finite (parseFloat (rate_text acct_V))"
    by (simp_all add: rate_text_def scenario_defs acct_V_def parseFloat_eval)
  have n: "snd (handleApplyInterest ticking [] w) = w" for w
    by (simp add: handleApplyInterest_def interestEligibleAccounts_def)
  from zero_interest_account_is_skipped [of acct_N ticking "[]" "[]" "world_of [acct_N]"]
    zero_interest_account_is_skipped [of acct_V ticking "[]" "[]" "world_of [acct_V]"]
    hN hV n
  show ?thesis by simp
qed

text \<open>
  Claim C10 as stated fails: for a savings account with balance 0 whose rate text is not
  a number, the computed interest is \<open>NaN\<close>, which is not 0 (and not equal to 0 under
  \<open>===\<close>).
\<close>

theorem zero_balance_interest_not_zero:
  "accountType acct_V = ''savings'' \<and> balance acct_V = Fin 0 \<and>
   parseFloat (rate_text acct_V) = NaN \<and>
   calculateInterest acct_V Monthly = NaN \<and>
   calculateInterest acct_V Monthly \<noteq> Fin 0 \<and>
   \<not> num_eq (calculateInterest acct_V Monthly) (Fin 0)"
  by (simp add: calculateInterest_def rate_text_def parseFloat_eval scenario_defs acct_V_def)

end
